theory Spec2Isabelle
  imports Complex_Main "HOL-Library.AList"
begin

section \<open>JSON values\<close>

text \<open>
  The value \<open>req.json()\<close> resolves to. A number is a rational (every finite double is
  one); \<open>JObj\<close> carries the properties of the parsed object in insertion order, read
  with \<open>map_of\<close> and overwritten with \<open>AList.update\<close> (an existing key keeps its
  place, a new key goes to the end, as in a JavaScript object).
\<close>

datatype json =
    JNull
  | JBool bool
  | JNum rat
  | JStr string
  | JArr "json list"
  | JObj "(string \<times> json) list"

type_synonym obj = "(string \<times> json) list"

section \<open>The validation library (zod 3)\<close>

text \<open>
  The part of zod the two schemas use. A parser adds issues to the context and returns
  a status; \<open>safeParse\<close> succeeds when the status is \<open>Valid\<close>. An issue is kept as
  its code and path (its message is not modelled).
\<close>

datatype issue_code = invalid_type | invalid_literal | too_small | invalid_string

datatype issue = Issue (code: issue_code) (path: "string list")

datatype parse_status = Valid | Dirty | Aborted

text \<open>
  \<open>.min(n)\<close>, \<open>.email()\<close>, \<open>.url()\<close> on a string; the regular expression of
  \<open>.email()\<close> and the URL constructor behind \<open>.url()\<close> are parameters (the matcher
  each check carries). \<open>.nonnegative()\<close> on a number is \<open>NumMin 0 True\<close>.
\<close>

datatype string_check = Min nat | Email "string \<Rightarrow> bool" | Url "string \<Rightarrow> bool"

datatype number_check = NumMin rat bool

datatype zod_type =
    ZodString "string_check list"
  | ZodNumber "number_check list"
  | ZodBoolean
  | ZodLiteral json
  | ZodOptional zod_type

datatype zod_object = ZodObject (shape: "(string \<times> zod_type) list")

fun apply_string_check ::
  "string list \<Rightarrow> string \<Rightarrow> string_check \<Rightarrow> parse_status \<times> issue list \<Rightarrow> parse_status \<times> issue list"
where
  "apply_string_check p s (Min n) (st, errs) =
     (if length s < n then (Dirty, errs @ [Issue too_small p]) else (st, errs))"
| "apply_string_check p s (Email matches) (st, errs) =
     (if \<not> matches s then (Dirty, errs @ [Issue invalid_string p]) else (st, errs))"
| "apply_string_check p s (Url parses) (st, errs) =
     (if \<not> parses s then (Dirty, errs @ [Issue invalid_string p]) else (st, errs))"

fun apply_number_check ::
  "string list \<Rightarrow> rat \<Rightarrow> number_check \<Rightarrow> parse_status \<times> issue list \<Rightarrow> parse_status \<times> issue list"
where
  "apply_number_check p x (NumMin v inclusive) (st, errs) =
     (if (if inclusive then x < v else x \<le> v)
      then (Dirty, errs @ [Issue too_small p]) else (st, errs))"

text \<open>
  \<open>_parse\<close> of each type; the input is \<open>None\<close> for \<open>undefined\<close> (a key the object does
  not have). A literal is compared with \<open>!==\<close> (the schemas only use the literal
  \<open>true\<close>).
\<close>

fun zod_parse :: "zod_type \<Rightarrow> string list \<Rightarrow> json option \<Rightarrow> parse_status \<times> issue list" where
  "zod_parse (ZodString checks) p (Some (JStr s)) = fold (apply_string_check p s) checks (Valid, [])"
| "zod_parse (ZodString checks) p _ = (Aborted, [Issue invalid_type p])"
| "zod_parse (ZodNumber checks) p (Some (JNum x)) = fold (apply_number_check p x) checks (Valid, [])"
| "zod_parse (ZodNumber checks) p _ = (Aborted, [Issue invalid_type p])"
| "zod_parse ZodBoolean p (Some (JBool b)) = (Valid, [])"
| "zod_parse ZodBoolean p _ = (Aborted, [Issue invalid_type p])"
| "zod_parse (ZodLiteral v) p x =
     (if x \<noteq> Some v then (Aborted, [Issue invalid_literal p]) else (Valid, []))"
| "zod_parse (ZodOptional t) p None = (Valid, [])"
| "zod_parse (ZodOptional t) p (Some v) = zod_parse t p (Some v)"

definition merge_status :: "parse_status list \<Rightarrow> parse_status" where
  "merge_status sts =
     (if Aborted \<in> set sts then Aborted else if Dirty \<in> set sts then Dirty else Valid)"

text \<open>
  An object schema in its default mode: a non-object is an \<open>invalid_type\<close>; every key of
  the shape is parsed, in the order of the shape; keys outside the shape are stripped;
  the output has the keys of the shape that the input has.
\<close>

definition final_object :: "(string \<times> zod_type) list \<Rightarrow> obj \<Rightarrow> obj" where
  "final_object fields props =
     concat (map (\<lambda>(key, t). case map_of props key of
                                None \<Rightarrow> [] | Some v \<Rightarrow> [(key, v)]) fields)"

fun object_parse :: "zod_object \<Rightarrow> json \<Rightarrow> parse_status \<times> issue list \<times> obj" where
  "object_parse (ZodObject fields) (JObj props) =
     (let results = map (\<lambda>(key, t). zod_parse t [key] (map_of props key)) fields
      in (merge_status (map fst results), concat (map snd results), final_object fields props))"
| "object_parse (ZodObject fields) _ = (Aborted, [Issue invalid_type []], [])"

datatype safe_parse = Success obj | Failure "issue list"

definition safeParse :: "zod_object \<Rightarrow> json \<Rightarrow> safe_parse" where
  "safeParse schema input =
     (case object_parse schema input of
        (st, errs, data) \<Rightarrow> if st = Valid then Success data else Failure errs)"

section \<open>The schemas\<close>

definition jobSchema :: "(string \<Rightarrow> bool) \<Rightarrow> (string \<Rightarrow> bool) \<Rightarrow> zod_object" where
  "jobSchema email url = ZodObject
     [(''id'', ZodOptional (ZodNumber [])),
      (''slug'', ZodString [Min 1]),
      (''title'', ZodString [Min 1]),
      (''type'', ZodString [Min 1]),
      (''location_type'', ZodString [Min 1]),
      (''location'', ZodOptional (ZodString [])),
      (''description'', ZodOptional (ZodString [])),
      (''salary'', ZodNumber [NumMin 0 True]),
      (''company_name'', ZodString [Min 1]),
      (''application_email'', ZodOptional (ZodString [Email email])),
      (''application_url'', ZodOptional (ZodString [Url url])),
      (''company_logo_url'', ZodOptional (ZodString [Url url])),
      (''approved'', ZodBoolean),
      (''created_at'', ZodString []),
      (''updated_at'', ZodString [])]"

definition approveJobSchema :: zod_object where
  "approveJobSchema = ZodObject [(''approved'', ZodLiteral (JBool True))]"

section \<open>The persistence store\<close>

text \<open>
  Modelled from the spec: the persistence client and the remote \<open>jobs\<close> table are not
  part of the sources. The table is a list of rows, each a JSON object whose \<open>id\<close>
  column is an integer; the store assigns \<open>id\<close> from a sequence when an inserted object
  has none, and keeps \<open>id\<close> unique. Each call returns a result or an error
  and never throws. A \<open>fault\<close> is what the environment does to one call: \<open>Some m\<close>
  when the transport or the store fails it with message \<open>m\<close> (the table is then as
  before), \<open>None\<close> when the store carries it out. The path parameter is a
  string-encoded identifier: a non-empty string of decimal digits; the store rejects
  any other string.
\<close>

record store =
  rows :: "obj list"
  next_id :: int

type_synonym fault = "string option"

datatype store_call =
    SelectAll
  | SelectSingle string
  | InsertOne obj
  | UpdateWhereId string obj
  | DeleteWhereId string

text \<open>Modelled from the spec: the string-encoded identifier and the rows it names; a
  partial update overwrites the columns of the patch, in order.\<close>

definition is_digit :: "char \<Rightarrow> bool" where
  "is_digit c = (48 \<le> (of_char c :: nat) \<and> (of_char c :: nat) \<le> 57)"

definition decode_id :: "string \<Rightarrow> int option" where
  "decode_id s =
     (if s \<noteq> [] \<and> list_all is_digit s
      then Some (foldl (\<lambda>acc c. 10 * acc + (int (of_char c) - 48)) 0 s)
      else None)"

definition id_matches :: "string \<Rightarrow> obj \<Rightarrow> bool" where
  "id_matches ident r =
     (case decode_id ident of
        None \<Rightarrow> False
      | Some k \<Rightarrow> map_of r ''id'' = Some (JNum (of_int k)))"

definition apply_patch :: "obj \<Rightarrow> obj \<Rightarrow> obj" where
  "apply_patch patch r = fold (\<lambda>(column, v). AList.update column v) patch r"

text \<open>Modelled from the spec: select-all, \<open>select("*")\<close>: all rows.\<close>

definition select_all :: "fault \<Rightarrow> store \<Rightarrow> obj list option \<times> string option" where
  "select_all f s =
     (case f of
        Some m \<Rightarrow> (None, Some m)
      | None \<Rightarrow> (Some (rows s), None))"

text \<open>Modelled from the spec: select-by-id, \<open>select("*").eq("id", id).single()\<close>: the one
  row of that id; the store reports an error when no row (or more than one) has it.\<close>

definition select_single :: "string \<Rightarrow> fault \<Rightarrow> store \<Rightarrow> obj option \<times> string option" where
  "select_single ident f s =
     (case f of
        Some m \<Rightarrow> (None, Some m)
      | None \<Rightarrow>
          (case filter (id_matches ident) (rows s) of
             [r] \<Rightarrow> (Some r, None)
           | _ \<Rightarrow> (None, Some ''no row'')))"

text \<open>Modelled from the spec: insert-one, \<open>insert(data)\<close>: one new row; the store gives it
  the next \<open>id\<close> of its sequence when \<open>data\<close> has none, and refuses an \<open>id\<close> that a
  row already has.\<close>

definition insert_one :: "obj \<Rightarrow> fault \<Rightarrow> store \<Rightarrow> string option \<times> store" where
  "insert_one data f s =
     (case f of
        Some m \<Rightarrow> (Some m, s)
      | None \<Rightarrow>
          (let (r, s1) =
                 (case map_of data ''id'' of
                    None \<Rightarrow> ((''id'', JNum (of_int (next_id s))) # data,
                                s\<lparr>next_id := next_id s + 1\<rparr>)
                  | Some v \<Rightarrow> (data, s))
           in if map_of r ''id'' \<in> set (map (\<lambda>r'. map_of r' ''id'') (rows s))
              then (Some ''duplicate id'', s1)
              else (None, s1\<lparr>rows := rows s @ [r]\<rparr>)))"

text \<open>Modelled from the spec: update-by-id, \<open>update(patch).eq("id", id)\<close>: a partial
  update, only the columns of \<open>patch\<close>, of the rows of that id; no row of that id is not
  an error.\<close>

definition update_where_id :: "string \<Rightarrow> obj \<Rightarrow> fault \<Rightarrow> store \<Rightarrow> string option \<times> store" where
  "update_where_id ident patch f s =
     (case f of
        Some m \<Rightarrow> (Some m, s)
      | None \<Rightarrow>
          (case decode_id ident of
             None \<Rightarrow> (Some ''malformed id'', s)
           | Some k \<Rightarrow>
               (None, s\<lparr>rows := map (\<lambda>r. if id_matches ident r then apply_patch patch r else r)
                                     (rows s)\<rparr>)))"

text \<open>Modelled from the spec: delete-by-id, \<open>delete().eq("id", id)\<close>: removes the rows of
  that id; when no row has it the delete is a no-op and not an error.\<close>

definition delete_where_id :: "string \<Rightarrow> fault \<Rightarrow> store \<Rightarrow> string option \<times> store" where
  "delete_where_id ident f s =
     (case f of
        Some m \<Rightarrow> (Some m, s)
      | None \<Rightarrow>
          (case decode_id ident of
             None \<Rightarrow> (Some ''malformed id'', s)
           | Some k \<Rightarrow> (None, s\<lparr>rows := filter (\<lambda>r. \<not> id_matches ident r) (rows s)\<rparr>)))"

section \<open>The route handlers\<close>

text \<open>
  A handler takes the request (the body is \<open>None\<close> when it is not JSON and
  \<open>req.json()\<close> throws), one fault for each store call it may issue and the store; it
  returns the response (or the exception that leaves it), the store calls it issued, in
  order, and the store afterwards.
\<close>

datatype body =
    ErrorBody string
  | Violations "issue list"
  | Text string
  | JobsBody "obj list option"
  | JobBody obj
  | ApprovedBody string obj
  | MessageBody string

record response =
  status :: nat
  content :: body

datatype exn = SyntaxError

record handled =
  reply :: "exn + response"
  calls :: "store_call list"
  after :: store

definition json_response :: "body \<Rightarrow> nat \<Rightarrow> exn + response" where
  "json_response b st = Inr \<lparr>status = st, content = b\<rparr>"

subsection \<open>The collection endpoint\<close>

definition GET :: "fault \<Rightarrow> store \<Rightarrow> handled" where
  "GET f s =
     (case select_all f s of
        (jobs, error) \<Rightarrow>
          (case error of
             Some message \<Rightarrow>
               \<lparr>reply = json_response (ErrorBody message) 500, calls = [SelectAll], after = s\<rparr>
           | None \<Rightarrow>
               \<lparr>reply = json_response (JobsBody jobs) 200, calls = [SelectAll], after = s\<rparr>))"

definition POST ::
  "(string \<Rightarrow> bool) \<Rightarrow> (string \<Rightarrow> bool) \<Rightarrow> json option \<Rightarrow> fault \<Rightarrow> store \<Rightarrow> handled"
where
  "POST email url req f s =
     (case req of
        None \<Rightarrow>
          \<lparr>reply = json_response (ErrorBody ''Failed to create job'') 500, calls = [], after = s\<rparr>
      | Some body \<Rightarrow>
          (case safeParse (jobSchema email url) body of
             Failure errors \<Rightarrow>
               \<lparr>reply = json_response (Violations errors) 400, calls = [], after = s\<rparr>
           | Success data \<Rightarrow>
               (case insert_one data f s of
                  (error, s') \<Rightarrow>
                    (case error of
                       Some message \<Rightarrow>
                         \<lparr>reply = json_response (ErrorBody message) 500,
                          calls = [InsertOne data], after = s'\<rparr>
                     | None \<Rightarrow>
                         \<lparr>reply = json_response (Text ''job created successfully'') 201,
                          calls = [InsertOne data], after = s'\<rparr>))))"

subsection \<open>The item endpoint\<close>

definition GET_by_id :: "string \<Rightarrow> fault \<Rightarrow> store \<Rightarrow> handled" where
  "GET_by_id ident f s =
     (case select_single ident f s of
        (Some data, None) \<Rightarrow>
          \<lparr>reply = json_response (JobBody data) 200, calls = [SelectSingle ident], after = s\<rparr>
      | _ \<Rightarrow>
          \<lparr>reply = json_response (ErrorBody ''Job not found'') 404,
           calls = [SelectSingle ident], after = s\<rparr>)"

text \<open>
  \<open>now\<close> is \<open>new Date().toISOString()\<close>. The body is read before the \<open>try\<close>, so a body
  that is not JSON leaves the handler as an exception; inside the \<open>try\<close> nothing throws.
\<close>

definition PUT :: "string \<Rightarrow> json option \<Rightarrow> string \<Rightarrow> fault \<Rightarrow> fault \<Rightarrow> store \<Rightarrow> handled" where
  "PUT ident req now f1 f2 s =
     (if ident = [] then
        \<lparr>reply = json_response (ErrorBody ''ID is required'') 400, calls = [], after = s\<rparr>
      else
        (case req of
           None \<Rightarrow> \<lparr>reply = Inl SyntaxError, calls = [], after = s\<rparr>
         | Some body \<Rightarrow>
             (case safeParse approveJobSchema body of
                Failure errors \<Rightarrow>
                  \<lparr>reply = json_response (Violations errors) 400, calls = [], after = s\<rparr>
              | Success _ \<Rightarrow>
                  (case select_single ident f1 s of
                     (Some existingJob, None) \<Rightarrow>
                       (let updatedJob =
                              AList.update ''updated_at'' (JStr now)
                                (AList.update ''approved'' (JBool True) existingJob);
                            patch =
                              (''approved'', JBool True) #
                              (case map_of updatedJob ''updated_at'' of
                                 None \<Rightarrow> [] | Some v \<Rightarrow> [(''updated_at'', v)])
                        in (case update_where_id ident patch f2 s of
                              (updateError, s') \<Rightarrow>
                                (case updateError of
                                   Some _ \<Rightarrow>
                                     \<lparr>reply = json_response (ErrorBody ''Failed to approve job'') 500,
                                      calls = [SelectSingle ident, UpdateWhereId ident patch],
                                      after = s'\<rparr>
                                 | None \<Rightarrow>
                                     \<lparr>reply = json_response
                                        (ApprovedBody ''Job approved successfully'' updatedJob) 200,
                                      calls = [SelectSingle ident, UpdateWhereId ident patch],
                                      after = s'\<rparr>)))
                   | _ \<Rightarrow>
                       \<lparr>reply = json_response
                          (ErrorBody (''Job with ID '' @ ident @ '' not found'')) 404,
                        calls = [SelectSingle ident], after = s\<rparr>))))"

definition DELETE :: "string \<Rightarrow> fault \<Rightarrow> store \<Rightarrow> handled" where
  "DELETE ident f s =
     (case delete_where_id ident f s of
        (error, s') \<Rightarrow>
          (case error of
             Some _ \<Rightarrow>
               \<lparr>reply = json_response (ErrorBody ''Job not found'') 404,
                calls = [DeleteWhereId ident], after = s'\<rparr>
           | None \<Rightarrow>
               \<lparr>reply = json_response (MessageBody ''Job deleted successfully'') 200,
                calls = [DeleteWhereId ident], after = s'\<rparr>))"

subsection \<open>The router\<close>

text \<open>The five operations in scope, and the handler the router gives each request to.\<close>

datatype request =
    ListJobs
  | CreateJob "json option"
  | GetJob string
  | ApproveJob string "json option" string
  | DeleteJob string

definition serve ::
  "(string \<Rightarrow> bool) \<Rightarrow> (string \<Rightarrow> bool) \<Rightarrow> request \<Rightarrow> fault \<Rightarrow> fault \<Rightarrow> store \<Rightarrow> handled"
where
  "serve email url r f1 f2 s =
     (case r of
        ListJobs \<Rightarrow> GET f1 s
      | CreateJob req \<Rightarrow> POST email url req f1 s
      | GetJob ident \<Rightarrow> GET_by_id ident f1 s
      | ApproveJob ident req now \<Rightarrow> PUT ident req now f1 f2 s
      | DeleteJob ident \<Rightarrow> DELETE ident f1 s)"

section \<open>Predicates and sample inputs of the properties\<close>

text \<open>The payload is an object whose \<open>approved\<close> property is \<open>true\<close>.\<close>

definition approved_true :: "json \<Rightarrow> bool" where
  "approved_true payload =
     (case payload of
        JObj props \<Rightarrow> map_of props ''approved'' = Some (JBool True)
      | _ \<Rightarrow> False)"

text \<open>Stand-ins for the two format checks, a table with no row, and the job of the
  spec's scenario.\<close>

definition sample_email :: "string \<Rightarrow> bool" where
  "sample_email s = (CHR ''@'' \<in> set s)"

definition sample_url :: "string \<Rightarrow> bool" where
  "sample_url s = (CHR '':'' \<in> set s)"

definition empty_store :: store where
  "empty_store = \<lparr>rows = [], next_id = 1\<rparr>"

definition sample_job :: obj where
  "sample_job =
     [(''slug'', JStr ''eng-1''), (''title'', JStr ''Engineer''), (''type'', JStr ''full-time''),
      (''location_type'', JStr ''remote''), (''salary'', JNum 90000),
      (''company_name'', JStr ''Acme''), (''approved'', JBool False),
      (''created_at'', JStr ''2024-01-01T00:00:00Z''),
      (''updated_at'', JStr ''2024-01-01T00:00:00Z'')]"

text \<open>The table after that job was created, and an approval body.\<close>

definition sample_store :: store where
  "sample_store = \<lparr>rows = [(''id'', JNum 1) # sample_job], next_id = 2\<rparr>"

definition approve_body :: json where
  "approve_body = JObj [(''approved'', JBool True)]"

section \<open>A failed validation carries issues\<close>

lemma fold_string_check_issues:
  "fold (apply_string_check p s) checks (st, errs) = (st', errs') \<Longrightarrow>
   (st \<noteq> Valid \<longrightarrow> errs \<noteq> []) \<Longrightarrow> st' \<noteq> Valid \<Longrightarrow> errs' \<noteq> []"
proof (induction checks arbitrary: st errs)
  case Nil
  then show ?case by simp
next
  case (Cons c checks)
  show ?case
  proof (cases "apply_string_check p s c (st, errs)")
    case (Pair st1 errs1)
    have "st1 \<noteq> Valid \<longrightarrow> errs1 \<noteq> []"
      using Pair Cons.prems(2) by (cases c) (auto split: if_splits)
    moreover have "fold (apply_string_check p s) checks (st1, errs1) = (st', errs')"
      using Cons.prems(1) Pair by simp
    ultimately show ?thesis
      using Cons.IH Cons.prems(3) by blast
  qed
qed

lemma fold_number_check_issues:
  "fold (apply_number_check p x) checks (st, errs) = (st', errs') \<Longrightarrow>
   (st \<noteq> Valid \<longrightarrow> errs \<noteq> []) \<Longrightarrow> st' \<noteq> Valid \<Longrightarrow> errs' \<noteq> []"
proof (induction checks arbitrary: st errs)
  case Nil
  then show ?case by simp
next
  case (Cons c checks)
  show ?case
  proof (cases "apply_number_check p x c (st, errs)")
    case (Pair st1 errs1)
    have "st1 \<noteq> Valid \<longrightarrow> errs1 \<noteq> []"
      using Pair Cons.prems(2) by (cases c) (auto split: if_splits)
    moreover have "fold (apply_number_check p x) checks (st1, errs1) = (st', errs')"
      using Cons.prems(1) Pair by simp
    ultimately show ?thesis
      using Cons.IH Cons.prems(3) by blast
  qed
qed

lemma zod_parse_issues:
  "zod_parse t p x = (st, errs) \<Longrightarrow> st \<noteq> Valid \<Longrightarrow> errs \<noteq> []"
  using fold_string_check_issues [of p _ _ Valid "[]" st errs]
    fold_number_check_issues [of p _ _ Valid "[]" st errs]
  by (induction t p x rule: zod_parse.induct) (auto split: if_splits)

lemma merge_status_Valid: "merge_status sts = Valid \<longleftrightarrow> (\<forall>st \<in> set sts. st = Valid)"
  unfolding merge_status_def by (metis parse_status.exhaust parse_status.distinct(1,3))

lemma object_parse_issues:
  "object_parse schema input = (st, errs, d) \<Longrightarrow> st \<noteq> Valid \<Longrightarrow> errs \<noteq> []"
proof (cases schema)
  case (ZodObject fields)
  assume a: "object_parse schema input = (st, errs, d)" and nv: "st \<noteq> Valid"
  show ?thesis
  proof (cases input)
    case (JObj props)
    let ?results = "map (\<lambda>(key, t). zod_parse t [key] (map_of props key)) fields"
    from a ZodObject JObj have st: "st = merge_status (map fst ?results)"
      and errs: "errs = concat (map snd ?results)"
      by (simp_all add: Let_def)
    from nv st have "\<not> (\<forall>x \<in> set (map fst ?results). x = Valid)"
      using merge_status_Valid by blast
    then obtain r where r: "r \<in> set ?results" "fst r \<noteq> Valid"
      by (metis (no_types, lifting) image_iff list.set_map)
    then have "snd r \<noteq> []"
      using zod_parse_issues [of _ _ _ "fst r" "snd r"] by auto
    moreover have "snd r \<in> snd ` set ?results"
      using r(1) by (rule imageI)
    then have "snd r \<in> set (map snd ?results)"
      by (simp only: set_map)
    ultimately have "\<not> (\<forall>xs \<in> set (map snd ?results). xs = [])"
      by blast
    then show ?thesis
      unfolding errs by (simp only: concat_eq_Nil_conv not_False_eq_True)
  qed (use a ZodObject in auto)
qed

lemma safeParse_Failure_issues: "safeParse schema input = Failure errs \<Longrightarrow> errs \<noteq> []"
  unfolding safeParse_def
  by (auto split: prod.splits if_splits dest: object_parse_issues)

section \<open>What an object schema accepts and returns\<close>

lemma map_of_final_object:
  "map_of (final_object flds props) k = (if k \<in> fst ` set flds then map_of props k else None)"
proof (induction flds)
  case Nil
  then show ?case by (simp add: final_object_def)
next
  case (Cons kt flds)
  obtain k0 t0 where kt: "kt = (k0, t0)" by (cases kt)
  have unfold: "final_object ((k0, t0) # flds) props =
      (case map_of props k0 of None \<Rightarrow> [] | Some v \<Rightarrow> [(k0, v)]) @ final_object flds props"
    by (simp add: final_object_def)
  show ?case
    using Cons.IH by (auto simp: unfold kt map_add_def split: option.splits)
qed

lemma safeParse_object:
  "safeParse (ZodObject flds) (JObj props) =
     (if \<forall>(k, t) \<in> set flds. fst (zod_parse t [k] (map_of props k)) = Valid
      then Success (final_object flds props)
      else Failure (concat (map snd (map (\<lambda>(key, t). zod_parse t [key] (map_of props key)) flds))))"
proof -
  have "merge_status (map fst (map (\<lambda>(key, t). zod_parse t [key] (map_of props key)) flds)) = Valid
        \<longleftrightarrow> (\<forall>(k, t) \<in> set flds. fst (zod_parse t [k] (map_of props k)) = Valid)"
    unfolding merge_status_Valid by (auto simp: case_prod_beta)
  then show ?thesis
    by (simp add: safeParse_def Let_def)
qed

lemma safeParse_not_object:
  "\<forall>props. input \<noteq> JObj props \<Longrightarrow> safeParse schema input = Failure [Issue invalid_type []]"
  by (cases schema; cases input) (simp_all add: safeParse_def)

section \<open>The approval schema\<close>

lemma approve_parse_props:
  "safeParse approveJobSchema (JObj props) =
     (if map_of props ''approved'' = Some (JBool True)
      then Success [(''approved'', JBool True)]
      else Failure [Issue invalid_literal [''approved'']])"
  by (simp add: safeParse_def approveJobSchema_def merge_status_def final_object_def)

lemma approve_parse_other:
  "\<forall>props. payload \<noteq> JObj props \<Longrightarrow>
   safeParse approveJobSchema payload = Failure [Issue invalid_type []]"
  by (cases payload) (simp_all add: safeParse_def approveJobSchema_def)

text \<open>
  C2 (as amended): the approval schema succeeds if and only if the payload is an object
  whose \<open>approved\<close> property is the literal \<open>true\<close>; other properties of the payload are
  ignored and stripped from the result. Any other value of \<open>approved\<close> (\<open>false\<close>
  included), a payload without the property and a payload that is not an object fail with
  a non-empty list of violations.
\<close>

theorem approveJobSchema_accepts_iff:
  "(approved_true payload \<longrightarrow>
      safeParse approveJobSchema payload = Success [(''approved'', JBool True)]) \<and>
   (\<not> approved_true payload \<longrightarrow>
      (\<exists>errs. errs \<noteq> [] \<and> safeParse approveJobSchema payload = Failure errs))"
proof (cases payload)
  case (JObj props)
  then show ?thesis by (simp add: approved_true_def approve_parse_props)
qed (simp_all add: approved_true_def approve_parse_other)

theorem approveJobSchema_accepts_iff_witness:
  "approved_true (JObj [(''approved'', JBool True)]) \<and>
   safeParse approveJobSchema (JObj [(''approved'', JBool True)]) =
     Success [(''approved'', JBool True)] \<and>
   \<not> approved_true (JObj [(''approved'', JBool False)]) \<and>
   (\<exists>errs. errs \<noteq> [] \<and>
      safeParse approveJobSchema (JObj [(''approved'', JBool False)]) = Failure errs) \<and>
   \<not> approved_true (JObj []) \<and>
   (\<exists>errs. errs \<noteq> [] \<and> safeParse approveJobSchema (JObj []) = Failure errs)"
  using approveJobSchema_accepts_iff [of "JObj [(''approved'', JBool True)]"]
    approveJobSchema_accepts_iff [of "JObj [(''approved'', JBool False)]"]
    approveJobSchema_accepts_iff [of "JObj []"]
  by (simp add: approved_true_def)

text \<open>The claim as stated fails: a payload with a second property is accepted.\<close>

theorem approveJobSchema_extra_field_counterexample:
  "safeParse approveJobSchema (JObj [(''approved'', JBool True), (''extra'', JNum 1)]) =
     Success [(''approved'', JBool True)] \<and>
   map fst [(''approved'', JBool True), (''extra'', JNum 1)] \<noteq> [''approved'']"
  by (simp add: approve_parse_props)

section \<open>Create\<close>

lemmas eval_schema = safeParse_def jobSchema_def merge_status_def final_object_def sample_job_def

lemma POST_valid:
  "safeParse (jobSchema email url) body = Success data \<Longrightarrow>
   calls (POST email url (Some body) f s) = [InsertOne data]"
  by (simp add: POST_def split: prod.splits option.splits)

lemma jobSchema_keys:
  "fst ` set (shape (jobSchema email url)) =
     {''id'', ''slug'', ''title'', ''type'', ''location_type'', ''location'', ''description'',
      ''salary'', ''company_name'', ''application_email'', ''application_url'',
      ''company_logo_url'', ''approved'', ''created_at'', ''updated_at''}"
  by (simp add: jobSchema_def)

lemma jobSchema_Success:
  assumes "safeParse (jobSchema email url) body = Success data"
  obtains props where "body = JObj props"
    and "data = final_object (shape (jobSchema email url)) props"
    and "\<forall>(k, t) \<in> set (shape (jobSchema email url)). fst (zod_parse t [k] (map_of props k)) = Valid"
proof (cases "\<exists>props. body = JObj props")
  case True
  then obtain props where b: "body = JObj props" by blast
  have sch: "jobSchema email url = ZodObject (shape (jobSchema email url))"
    by simp
  from assms b have "safeParse (ZodObject (shape (jobSchema email url))) (JObj props) = Success data"
    by simp
  then have "data = final_object (shape (jobSchema email url)) props"
    and "\<forall>(k, t) \<in> set (shape (jobSchema email url)). fst (zod_parse t [k] (map_of props k)) = Valid"
    unfolding safeParse_object by (simp_all split: if_splits)
  with b that show ?thesis by blast
next
  case False
  then have "safeParse (jobSchema email url) body = Failure [Issue invalid_type []]"
    by (simp add: safeParse_not_object)
  with assms show ?thesis by simp
qed

lemma optional_number_Valid:
  "fst (zod_parse (ZodOptional (ZodNumber [])) p x) = Valid \<Longrightarrow>
   x = None \<or> (\<exists>n. x = Some (JNum n))"
  by (cases x; cases "the x") auto

text \<open>
  C3 (as amended): the creation schema admits an optional numeric \<open>id\<close>. For every create
  request whose body passes the schema, the body is an object, its \<open>id\<close> is absent or a
  number, and the object passed to the insert operation has an \<open>id\<close> exactly when the
  client payload has one, with the client's value; only when the payload has none is the
  \<open>id\<close> left to the store.
\<close>

theorem POST_forwards_client_id:
  assumes "safeParse (jobSchema email url) body = Success data"
  shows "\<exists>props. body = JObj props \<and>
           map_of data ''id'' = map_of props ''id'' \<and>
           (map_of props ''id'' = None \<or> (\<exists>n. map_of props ''id'' = Some (JNum n))) \<and>
           calls (POST email url (Some body) f s) = [InsertOne data]"
proof -
  from assms obtain props where b: "body = JObj props"
    and d: "data = final_object (shape (jobSchema email url)) props"
    and v: "\<forall>(k, t) \<in> set (shape (jobSchema email url)). fst (zod_parse t [k] (map_of props k)) = Valid"
    by (rule jobSchema_Success)
  have "(''id'', ZodOptional (ZodNumber [])) \<in> set (shape (jobSchema email url))"
    by (simp add: jobSchema_def)
  with v have "fst (zod_parse (ZodOptional (ZodNumber [])) [''id''] (map_of props ''id'')) = Valid"
    by blast
  then have "map_of props ''id'' = None \<or> (\<exists>n. map_of props ''id'' = Some (JNum n))"
    by (rule optional_number_Valid)
  moreover have "map_of data ''id'' = map_of props ''id''"
    unfolding d map_of_final_object jobSchema_keys by simp
  ultimately show ?thesis
    using b POST_valid [OF assms] by blast
qed

theorem POST_forwards_client_id_witness:
  "safeParse (jobSchema sample_email sample_url) (JObj sample_job) = Success sample_job \<and>
   (\<exists>props. JObj sample_job = JObj props \<and>
      map_of sample_job ''id'' = map_of props ''id'' \<and>
      (map_of props ''id'' = None \<or> (\<exists>n. map_of props ''id'' = Some (JNum n))) \<and>
      calls (POST sample_email sample_url (Some (JObj sample_job)) None empty_store) =
        [InsertOne sample_job])"
proof -
  have h: "safeParse (jobSchema sample_email sample_url) (JObj sample_job) = Success sample_job"
    by (simp add: eval_schema)
  show ?thesis
    using h POST_forwards_client_id [OF h, of None empty_store] by simp
qed

theorem POST_client_id_counterexample:
  "safeParse (jobSchema sample_email sample_url) (JObj ((''id'', JNum 7) # sample_job)) =
     Success ((''id'', JNum 7) # sample_job) \<and>
   calls (POST sample_email sample_url (Some (JObj ((''id'', JNum 7) # sample_job))) None empty_store) =
     [InsertOne ((''id'', JNum 7) # sample_job)]"
proof -
  have h: "safeParse (jobSchema sample_email sample_url) (JObj ((''id'', JNum 7) # sample_job)) =
     Success ((''id'', JNum 7) # sample_job)"
    by (simp add: eval_schema)
  show ?thesis
    using h POST_valid [OF h] by simp
qed

text \<open>
  C4: for every create request whose body fails the creation schema, the handler responds
  400 with the list of violations, the list is not empty, no store call is issued and the
  store is unchanged.
\<close>

theorem POST_invalid_body:
  assumes "safeParse (jobSchema email url) body = Failure errs"
  shows "reply (POST email url (Some body) f s) = Inr \<lparr>status = 400, content = Violations errs\<rparr> \<and>
         errs \<noteq> [] \<and>
         calls (POST email url (Some body) f s) = [] \<and>
         after (POST email url (Some body) f s) = s"
  using assms safeParse_Failure_issues [OF assms]
  by (simp add: POST_def json_response_def)

theorem POST_invalid_body_witness:
  "safeParse (jobSchema sample_email sample_url)
     (JObj (AList.update ''salary'' (JNum (- 1)) sample_job)) = Failure [Issue too_small [''salary'']] \<and>
   reply (POST sample_email sample_url
     (Some (JObj (AList.update ''salary'' (JNum (- 1)) sample_job))) None empty_store) =
     Inr \<lparr>status = 400, content = Violations [Issue too_small [''salary'']]\<rparr> \<and>
   calls (POST sample_email sample_url
     (Some (JObj (AList.update ''salary'' (JNum (- 1)) sample_job))) None empty_store) = [] \<and>
   after (POST sample_email sample_url
     (Some (JObj (AList.update ''salary'' (JNum (- 1)) sample_job))) None empty_store) = empty_store"
proof -
  have h: "safeParse (jobSchema sample_email sample_url)
     (JObj (AList.update ''salary'' (JNum (- 1)) sample_job)) = Failure [Issue too_small [''salary'']]"
    by (simp add: eval_schema)
  show ?thesis
    using h POST_invalid_body [OF h, of None empty_store] by simp
qed

text \<open>The two examples of the claim fail the schema: a required field that is missing, a
  negative \<open>salary\<close>.\<close>

lemma jobSchema_rejects_missing:
  assumes "k \<in> {''slug'', ''title'', ''type'', ''location_type'', ''salary'', ''company_name'',
                 ''approved'', ''created_at'', ''updated_at''}"
    and "map_of props k = None"
  shows "\<exists>errs. safeParse (jobSchema email url) (JObj props) = Failure errs"
proof -
  have "\<exists>t. (k, t) \<in> set (shape (jobSchema email url)) \<and> fst (zod_parse t [k] None) \<noteq> Valid"
    using assms(1)
  proof (elim insertE emptyE)
    assume "k = ''slug''"
    then show ?thesis by (intro exI [of _ "ZodString [Min 1]"]) (simp add: jobSchema_def)
  next
    assume "k = ''title''"
    then show ?thesis by (intro exI [of _ "ZodString [Min 1]"]) (simp add: jobSchema_def)
  next
    assume "k = ''type''"
    then show ?thesis by (intro exI [of _ "ZodString [Min 1]"]) (simp add: jobSchema_def)
  next
    assume "k = ''location_type''"
    then show ?thesis by (intro exI [of _ "ZodString [Min 1]"]) (simp add: jobSchema_def)
  next
    assume "k = ''salary''"
    then show ?thesis by (intro exI [of _ "ZodNumber [NumMin 0 True]"]) (simp add: jobSchema_def)
  next
    assume "k = ''company_name''"
    then show ?thesis by (intro exI [of _ "ZodString [Min 1]"]) (simp add: jobSchema_def)
  next
    assume "k = ''approved''"
    then show ?thesis by (intro exI [of _ "ZodBoolean"]) (simp add: jobSchema_def)
  next
    assume "k = ''created_at''"
    then show ?thesis by (intro exI [of _ "ZodString []"]) (simp add: jobSchema_def)
  next
    assume "k = ''updated_at''"
    then show ?thesis by (intro exI [of _ "ZodString []"]) (simp add: jobSchema_def)
  qed
  then obtain t where t: "(k, t) \<in> set (shape (jobSchema email url))"
    and nv: "fst (zod_parse t [k] (map_of props k)) \<noteq> Valid"
    using assms(2) by auto
  have "\<not> (\<forall>(k, t) \<in> set (shape (jobSchema email url)). fst (zod_parse t [k] (map_of props k)) = Valid)"
    using t nv by blast
  moreover have "jobSchema email url = ZodObject (shape (jobSchema email url))"
    by simp
  ultimately show ?thesis
    using safeParse_object [of "shape (jobSchema email url)" props] by simp
qed

lemma jobSchema_rejects_negative_salary:
  assumes "map_of props ''salary'' = Some (JNum x)" and "x < 0"
  shows "\<exists>errs. safeParse (jobSchema email url) (JObj props) = Failure errs"
proof -
  have t: "(''salary'', ZodNumber [NumMin 0 True]) \<in> set (shape (jobSchema email url))"
    by (simp add: jobSchema_def)
  have nv: "fst (zod_parse (ZodNumber [NumMin 0 True]) [''salary''] (map_of props ''salary'')) \<noteq> Valid"
    using assms by simp
  have "\<not> (\<forall>(k, t) \<in> set (shape (jobSchema email url)). fst (zod_parse t [k] (map_of props k)) = Valid)"
    using t nv by blast
  moreover have "jobSchema email url = ZodObject (shape (jobSchema email url))"
    by simp
  ultimately show ?thesis
    using safeParse_object [of "shape (jobSchema email url)" props] by simp
qed

text \<open>
  C9: for every create request whose body is not parseable as JSON, the handler responds
  500 with \<open>{error: "Failed to create job"}\<close> (not 400), and no store call is issued.
\<close>

theorem POST_unparseable_body:
  "reply (POST email url None f s) =
     Inr \<lparr>status = 500, content = ErrorBody ''Failed to create job''\<rparr> \<and>
   calls (POST email url None f s) = [] \<and>
   after (POST email url None f s) = s"
  by (simp add: POST_def json_response_def)

theorem POST_unparseable_body_witness:
  "reply (POST sample_email sample_url None None empty_store) =
     Inr \<lparr>status = 500, content = ErrorBody ''Failed to create job''\<rparr> \<and>
   calls (POST sample_email sample_url None None empty_store) = [] \<and>
   after (POST sample_email sample_url None None empty_store) = empty_store"
  using POST_unparseable_body [of sample_email sample_url None empty_store] by simp

text \<open>
  C10: the creation schema performs no format check on \<open>created_at\<close> and \<open>updated_at\<close>:
  for every payload valid in all other fields, any two strings for these fields (the empty
  string included) are accepted and are forwarded unchanged in the object passed to the
  insert operation.
\<close>

theorem jobSchema_timestamps_unchecked:
  assumes "\<forall>(k, t) \<in> set (shape (jobSchema email url)).
             k \<notin> {''created_at'', ''updated_at''} \<longrightarrow>
             fst (zod_parse t [k] (map_of props k)) = Valid"
    and "map_of props ''created_at'' = Some (JStr c)"
    and "map_of props ''updated_at'' = Some (JStr u)"
  shows "\<exists>data. safeParse (jobSchema email url) (JObj props) = Success data \<and>
           map_of data ''created_at'' = Some (JStr c) \<and>
           map_of data ''updated_at'' = Some (JStr u) \<and>
           calls (POST email url (Some (JObj props)) f s) = [InsertOne data]"
proof -
  let ?flds = "shape (jobSchema email url)"
  have ts: "t = ZodString []" if "(k, t) \<in> set ?flds" "k \<in> {''created_at'', ''updated_at''}" for k t
    using that by (auto simp: jobSchema_def)
  have valid: "fst (zod_parse t [k] (map_of props k)) = Valid" if kt: "(k, t) \<in> set ?flds" for k t
  proof (cases "k \<in> {''created_at'', ''updated_at''}")
    case True
    with ts [OF kt] assms(2,3) show ?thesis by auto
  next
    case False
    with assms(1) kt show ?thesis by blast
  qed
  have sch: "jobSchema email url = ZodObject ?flds"
    by simp
  have ok: "safeParse (jobSchema email url) (JObj props) = Success (final_object ?flds props)"
    using valid safeParse_object [of ?flds props] by (simp add: case_prod_beta)
  moreover have "map_of (final_object ?flds props) ''created_at'' = Some (JStr c)"
    and "map_of (final_object ?flds props) ''updated_at'' = Some (JStr u)"
    unfolding map_of_final_object jobSchema_keys using assms(2,3) by simp_all
  ultimately show ?thesis
    using POST_valid [OF ok] by blast
qed

theorem jobSchema_timestamps_unchecked_witness:
  "\<exists>data. safeParse (jobSchema sample_email sample_url)
       (JObj (AList.update ''updated_at'' (JStr ''soon'')
               (AList.update ''created_at'' (JStr []) sample_job))) = Success data \<and>
     map_of data ''created_at'' = Some (JStr []) \<and>
     map_of data ''updated_at'' = Some (JStr ''soon'') \<and>
     calls (POST sample_email sample_url
       (Some (JObj (AList.update ''updated_at'' (JStr ''soon'')
               (AList.update ''created_at'' (JStr []) sample_job)))) None empty_store) =
       [InsertOne data]"
proof -
  let ?props = "AList.update ''updated_at'' (JStr ''soon'')
                 (AList.update ''created_at'' (JStr []) sample_job)"
  have h1: "\<forall>(k, t) \<in> set (shape (jobSchema sample_email sample_url)).
             k \<notin> {''created_at'', ''updated_at''} \<longrightarrow>
             fst (zod_parse t [k] (map_of ?props k)) = Valid"
    by (simp add: jobSchema_def sample_job_def)
  have h2: "map_of ?props ''created_at'' = Some (JStr [])"
    by (simp add: sample_job_def)
  have h3: "map_of ?props ''updated_at'' = Some (JStr ''soon'')"
    by (simp add: sample_job_def)
  show ?thesis
    using jobSchema_timestamps_unchecked [OF h1 h2 h3, of None empty_store] by simp
qed

section \<open>Approve\<close>

lemma select_single_found:
  "select_single ident f s = (Some r, None) \<longleftrightarrow>
   f = None \<and> filter (id_matches ident) (rows s) = [r]"
  by (auto simp: select_single_def split: option.splits list.splits)

lemma select_single_none:
  "filter (id_matches ident) (rows s) = [] \<Longrightarrow> \<exists>e. select_single ident f s = (None, Some e)"
  by (auto simp: select_single_def split: option.splits)

lemma id_matches_decodes: "id_matches ident r \<Longrightarrow> \<exists>k. decode_id ident = Some k"
  by (auto simp: id_matches_def split: option.splits)

lemma decode_id_nonempty: "decode_id ident = Some k \<Longrightarrow> ident \<noteq> []"
  by (auto simp: decode_id_def split: if_splits)

lemma PUT_invalid:
  "ident \<noteq> [] \<Longrightarrow> safeParse approveJobSchema body = Failure errs \<Longrightarrow>
   PUT ident (Some body) now f1 f2 s =
     \<lparr>reply = Inr \<lparr>status = 400, content = Violations errs\<rparr>, calls = [], after = s\<rparr>"
  by (simp add: PUT_def json_response_def)

lemma PUT_unparseable_body:
  "ident \<noteq> [] \<Longrightarrow>
   PUT ident None now f1 f2 s = \<lparr>reply = Inl SyntaxError, calls = [], after = s\<rparr>"
  by (simp add: PUT_def)

lemma PUT_missing_id:
  "PUT [] req now f1 f2 s =
     \<lparr>reply = Inr \<lparr>status = 400, content = ErrorBody ''ID is required''\<rparr>, calls = [], after = s\<rparr>"
  by (simp add: PUT_def json_response_def)

lemma approved_true_Success:
  "approved_true body \<Longrightarrow> safeParse approveJobSchema body = Success [(''approved'', JBool True)]"
  by (cases body) (simp_all add: approved_true_def approve_parse_props)

lemma PUT_not_found:
  assumes "ident \<noteq> []" and "safeParse approveJobSchema body = Success d"
    and "select_single ident f1 s = (None, Some e)"
  shows "PUT ident (Some body) now f1 f2 s =
     \<lparr>reply = Inr \<lparr>status = 404, content = ErrorBody (''Job with ID '' @ ident @ '' not found'')\<rparr>,
      calls = [SelectSingle ident], after = s\<rparr>"
  using assms by (simp add: PUT_def json_response_def)

lemma PUT_found:
  assumes "safeParse approveJobSchema body = Success d"
    and "select_single ident f1 s = (Some existingJob, None)"
  shows "PUT ident (Some body) now f1 f2 s =
     (case update_where_id ident [(''approved'', JBool True), (''updated_at'', JStr now)] f2 s of
        (updateError, s') \<Rightarrow>
          \<lparr>reply =
             (case updateError of
                Some e \<Rightarrow> Inr \<lparr>status = 500, content = ErrorBody ''Failed to approve job''\<rparr>
              | None \<Rightarrow> Inr \<lparr>status = 200, content = ApprovedBody ''Job approved successfully''
                   (AList.update ''updated_at'' (JStr now)
                      (AList.update ''approved'' (JBool True) existingJob))\<rparr>),
           calls = [SelectSingle ident,
                    UpdateWhereId ident [(''approved'', JBool True), (''updated_at'', JStr now)]],
           after = s'\<rparr>)"
proof -
  from assms(2) obtain k where "decode_id ident = Some k"
    using id_matches_decodes [of ident existingJob]
    by (metis filter_eq_ConsD select_single_found)
  then have ne: "ident \<noteq> []"
    by (rule decode_id_nonempty)
  have upd: "map_of (AList.update ''updated_at'' (JStr now)
                      (AList.update ''approved'' (JBool True) existingJob)) ''updated_at'' = Some (JStr now)"
    by (simp add: update_conv')
  show ?thesis
    using assms ne upd
    by (simp add: PUT_def json_response_def Let_def split: prod.splits option.splits)
qed

lemma PUT_no_single_row:
  assumes "ident \<noteq> []" and "safeParse approveJobSchema body = Success d"
    and "\<forall>r. select_single ident f1 s \<noteq> (Some r, None)"
  shows "PUT ident (Some body) now f1 f2 s =
     \<lparr>reply = Inr \<lparr>status = 404, content = ErrorBody (''Job with ID '' @ ident @ '' not found'')\<rparr>,
      calls = [SelectSingle ident], after = s\<rparr>"
proof (cases "select_single ident f1 s")
  case (Pair existingJob fetchError)
  with assms(3) have "existingJob = None \<or> fetchError \<noteq> None"
    by (cases existingJob; cases fetchError) auto
  with Pair assms(1,2) show ?thesis
    by (auto simp: PUT_def json_response_def split: option.splits)
qed

lemma update_where_id_ok:
  "update_where_id ident patch f s = (None, s') \<longleftrightarrow>
   f = None \<and> decode_id ident \<noteq> None \<and>
   s' = s\<lparr>rows := map (\<lambda>r. if id_matches ident r then apply_patch patch r else r) (rows s)\<rparr>"
  by (auto simp: update_where_id_def split: option.splits)

lemma update_where_id_error:
  "update_where_id ident patch f s = (Some e, s') \<Longrightarrow> s' = s"
  by (auto simp: update_where_id_def split: option.splits)

lemma map_of_approve_patch:
  "map_of (apply_patch [(''approved'', JBool True), (''updated_at'', JStr now)] r) =
     (map_of r)(''approved'' \<mapsto> JBool True, ''updated_at'' \<mapsto> JStr now)"
  by (simp add: apply_patch_def update_conv')

lemma id_matches_approve_patch:
  "id_matches ident (apply_patch [(''approved'', JBool True), (''updated_at'', JStr now)] r) =
   id_matches ident r"
  by (simp add: id_matches_def map_of_approve_patch split: option.splits)

text \<open>
  C6: for every approve request (its identifier present), the error paths are ordered and
  distinguished: a body that fails the approval schema yields 400 with the non-empty list
  of violations, with no store call and the store unchanged, whatever the identifier; a
  body that passes with an identifier matching no row yields 404, not 500, whatever
  happens to the read.
\<close>

theorem PUT_error_paths:
  assumes "ident \<noteq> []"
  shows "(safeParse approveJobSchema body = Failure errs \<longrightarrow>
            reply (PUT ident (Some body) now f1 f2 s) =
              Inr \<lparr>status = 400, content = Violations errs\<rparr> \<and>
            errs \<noteq> [] \<and>
            calls (PUT ident (Some body) now f1 f2 s) = [] \<and>
            after (PUT ident (Some body) now f1 f2 s) = s) \<and>
         (approved_true body \<and> filter (id_matches ident) (rows s) = [] \<longrightarrow>
            reply (PUT ident (Some body) now f1 f2 s) =
              Inr \<lparr>status = 404,
                   content = ErrorBody (''Job with ID '' @ ident @ '' not found'')\<rparr> \<and>
            after (PUT ident (Some body) now f1 f2 s) = s)"
proof (intro conjI impI)
  assume f: "safeParse approveJobSchema body = Failure errs"
  show "reply (PUT ident (Some body) now f1 f2 s) = Inr \<lparr>status = 400, content = Violations errs\<rparr>"
    and "calls (PUT ident (Some body) now f1 f2 s) = []"
    and "after (PUT ident (Some body) now f1 f2 s) = s"
    by (simp_all add: PUT_invalid [OF assms f])
  show "errs \<noteq> []"
    using f by (rule safeParse_Failure_issues)
next
  assume a: "approved_true body \<and> filter (id_matches ident) (rows s) = []"
  then obtain e where "select_single ident f1 s = (None, Some e)"
    using select_single_none by blast
  with a assms show "reply (PUT ident (Some body) now f1 f2 s) =
              Inr \<lparr>status = 404,
                   content = ErrorBody (''Job with ID '' @ ident @ '' not found'')\<rparr>"
    and "after (PUT ident (Some body) now f1 f2 s) = s"
    by (simp_all add: PUT_not_found approved_true_Success)
qed

text \<open>
  C7: for every approve request answered 200, the handler issued one read and then one
  update whose object has only the columns \<open>approved\<close> and \<open>updated_at\<close>; in the table
  the rows of another id are unchanged and every other column of every row is unchanged;
  the response carries the view built from the row read before the update (\<open>approved\<close>
  forced to \<open>true\<close>, \<open>updated_at\<close> the current time), and no read follows the update.
\<close>

theorem PUT_success_frame:
  assumes "reply (PUT ident req now f1 f2 s) = Inr r" and "status r = 200"
  shows "\<exists>existingJob.
           select_single ident f1 s = (Some existingJob, None) \<and>
           content r = ApprovedBody ''Job approved successfully''
             (AList.update ''updated_at'' (JStr now)
                (AList.update ''approved'' (JBool True) existingJob)) \<and>
           calls (PUT ident req now f1 f2 s) =
             [SelectSingle ident,
              UpdateWhereId ident [(''approved'', JBool True), (''updated_at'', JStr now)]] \<and>
           length (rows (after (PUT ident req now f1 f2 s))) = length (rows s) \<and>
           (\<forall>i < length (rows s).
              (\<not> id_matches ident (rows s ! i) \<longrightarrow>
                 rows (after (PUT ident req now f1 f2 s)) ! i = rows s ! i) \<and>
              (\<forall>column. column \<notin> {''approved'', ''updated_at''} \<longrightarrow>
                 map_of (rows (after (PUT ident req now f1 f2 s)) ! i) column =
                 map_of (rows s ! i) column))"
proof -
  let ?patch = "[(''approved'', JBool True), (''updated_at'', JStr now)]"
  have ne: "ident \<noteq> []"
    using assms by (auto simp: PUT_def json_response_def)
  then obtain body where req: "req = Some body"
    using assms(1) by (cases req) (auto simp: PUT_def)
  obtain d where ok: "safeParse approveJobSchema body = Success d"
  proof (cases "safeParse approveJobSchema body")
    case (Failure errs)
    with assms ne req show ?thesis by (auto simp: PUT_invalid)
  qed
  obtain existingJob where sel: "select_single ident f1 s = (Some existingJob, None)"
  proof (cases "\<exists>x. select_single ident f1 s = (Some x, None)")
    case False
    then have "\<forall>x. select_single ident f1 s \<noteq> (Some x, None)" by blast
    from PUT_no_single_row [OF ne ok this] assms req show ?thesis by auto
  qed blast
  obtain updateError s' where upd: "update_where_id ident ?patch f2 s = (updateError, s')"
    by (cases "update_where_id ident ?patch f2 s")
  have put: "PUT ident req now f1 f2 s =
      \<lparr>reply =
         (case updateError of
            Some e \<Rightarrow> Inr \<lparr>status = 500, content = ErrorBody ''Failed to approve job''\<rparr>
          | None \<Rightarrow> Inr \<lparr>status = 200, content = ApprovedBody ''Job approved successfully''
               (AList.update ''updated_at'' (JStr now)
                  (AList.update ''approved'' (JBool True) existingJob))\<rparr>),
       calls = [SelectSingle ident, UpdateWhereId ident ?patch], after = s'\<rparr>"
    unfolding req PUT_found [OF ok sel] upd by simp
  have none: "updateError = None"
    using assms put by (cases updateError) auto
  then have s': "s' = s\<lparr>rows := map (\<lambda>r. if id_matches ident r then apply_patch ?patch r else r) (rows s)\<rparr>"
    using upd update_where_id_ok by blast
  have "content r = ApprovedBody ''Job approved successfully''
             (AList.update ''updated_at'' (JStr now)
                (AList.update ''approved'' (JBool True) existingJob))"
    using assms(1) put none by auto
  moreover have "calls (PUT ident req now f1 f2 s) = [SelectSingle ident, UpdateWhereId ident ?patch]"
    by (simp add: put)
  moreover have "length (rows (after (PUT ident req now f1 f2 s))) = length (rows s)"
    by (simp add: put s')
  moreover have "\<forall>i < length (rows s).
              (\<not> id_matches ident (rows s ! i) \<longrightarrow>
                 rows (after (PUT ident req now f1 f2 s)) ! i = rows s ! i) \<and>
              (\<forall>column. column \<notin> {''approved'', ''updated_at''} \<longrightarrow>
                 map_of (rows (after (PUT ident req now f1 f2 s)) ! i) column =
                 map_of (rows s ! i) column)"
    by (simp add: put s' map_of_approve_patch)
  ultimately show ?thesis
    using sel by blast
qed

subsection \<open>The error paths and the frame on the sample table\<close>

lemma decode_id_1: "decode_id ''1'' = Some 1"
  by (simp add: decode_id_def is_digit_def)

lemma decode_id_999: "decode_id ''999'' = Some 999"
  by (simp add: decode_id_def is_digit_def)

lemma select_sample: "select_single ''1'' None sample_store = (Some ((''id'', JNum 1) # sample_job), None)"
  by (simp add: select_single_def sample_store_def id_matches_def decode_id_1)

theorem PUT_error_paths_witness:
  "safeParse approveJobSchema (JObj [(''approved'', JBool False)]) =
     Failure [Issue invalid_literal [''approved'']] \<and>
   reply (PUT ''1'' (Some (JObj [(''approved'', JBool False)])) ''now'' None None sample_store) =
     Inr \<lparr>status = 400, content = Violations [Issue invalid_literal [''approved'']]\<rparr> \<and>
   calls (PUT ''1'' (Some (JObj [(''approved'', JBool False)])) ''now'' None None sample_store) = [] \<and>
   after (PUT ''1'' (Some (JObj [(''approved'', JBool False)])) ''now'' None None sample_store) =
     sample_store \<and>
   approved_true approve_body \<and>
   filter (id_matches ''999'') (rows sample_store) = [] \<and>
   reply (PUT ''999'' (Some approve_body) ''now'' None None sample_store) =
     Inr \<lparr>status = 404, content = ErrorBody ''Job with ID 999 not found''\<rparr>"
proof -
  have ne: "''1'' \<noteq> []" "''999'' \<noteq> []" by simp_all
  have h1: "safeParse approveJobSchema (JObj [(''approved'', JBool False)]) =
     Failure [Issue invalid_literal [''approved'']]"
    by (simp add: approve_parse_props)
  have h2: "approved_true approve_body"
    by (simp add: approved_true_def approve_body_def)
  have h3: "filter (id_matches ''999'') (rows sample_store) = []"
    by (simp add: sample_store_def id_matches_def decode_id_999 sample_job_def)
  show ?thesis
    using h1 h2 h3
      PUT_error_paths [OF ne(1), of "JObj [(''approved'', JBool False)]"
        "[Issue invalid_literal [''approved'']]" "''now''" None None sample_store]
      PUT_error_paths [OF ne(2), of approve_body "[]" "''now''" None None sample_store]
    by simp
qed

lemma PUT_sample:
  "PUT ''1'' (Some approve_body) ''now'' None None sample_store =
     \<lparr>reply = Inr \<lparr>status = 200, content = ApprovedBody ''Job approved successfully''
         (AList.update ''updated_at'' (JStr ''now'')
            (AList.update ''approved'' (JBool True) ((''id'', JNum 1) # sample_job)))\<rparr>,
      calls = [SelectSingle ''1'',
               UpdateWhereId ''1'' [(''approved'', JBool True), (''updated_at'', JStr ''now'')]],
      after = sample_store\<lparr>rows :=
        map (\<lambda>r. if id_matches ''1'' r
                 then apply_patch [(''approved'', JBool True), (''updated_at'', JStr ''now'')] r
                 else r) (rows sample_store)\<rparr>\<rparr>"
proof -
  have ok: "safeParse approveJobSchema approve_body = Success [(''approved'', JBool True)]"
    by (simp add: approve_body_def approve_parse_props)
  show ?thesis
    unfolding PUT_found [OF ok select_sample]
    by (simp add: update_where_id_def decode_id_1)
qed

theorem PUT_success_frame_witness:
  "reply (PUT ''1'' (Some approve_body) ''now'' None None sample_store) =
     Inr \<lparr>status = 200, content = ApprovedBody ''Job approved successfully''
         (AList.update ''updated_at'' (JStr ''now'')
            (AList.update ''approved'' (JBool True) ((''id'', JNum 1) # sample_job)))\<rparr> \<and>
   calls (PUT ''1'' (Some approve_body) ''now'' None None sample_store) =
     [SelectSingle ''1'',
      UpdateWhereId ''1'' [(''approved'', JBool True), (''updated_at'', JStr ''now'')]] \<and>
   map_of (rows (after (PUT ''1'' (Some approve_body) ''now'' None None sample_store)) ! 0) ''slug'' =
     map_of (rows sample_store ! 0) ''slug''"
proof -
  have h1: "reply (PUT ''1'' (Some approve_body) ''now'' None None sample_store) =
     Inr \<lparr>status = 200, content = ApprovedBody ''Job approved successfully''
         (AList.update ''updated_at'' (JStr ''now'')
            (AList.update ''approved'' (JBool True) ((''id'', JNum 1) # sample_job)))\<rparr>"
    by (simp add: PUT_sample)
  have h2: "status \<lparr>status = 200, content = ApprovedBody ''Job approved successfully''
         (AList.update ''updated_at'' (JStr ''now'')
            (AList.update ''approved'' (JBool True) ((''id'', JNum 1) # sample_job)))\<rparr> = 200"
    by simp
  have len: "0 < length (rows sample_store)"
    by (simp add: sample_store_def)
  have col: "''slug'' \<notin> {''approved'', ''updated_at''}"
    by simp
  from PUT_success_frame [OF h1 h2] obtain existingJob where
    c: "calls (PUT ''1'' (Some approve_body) ''now'' None None sample_store) =
         [SelectSingle ''1'',
          UpdateWhereId ''1'' [(''approved'', JBool True), (''updated_at'', JStr ''now'')]]"
    and fr: "\<forall>i < length (rows sample_store).
              (\<not> id_matches ''1'' (rows sample_store ! i) \<longrightarrow>
                 rows (after (PUT ''1'' (Some approve_body) ''now'' None None sample_store)) ! i =
                 rows sample_store ! i) \<and>
              (\<forall>column. column \<notin> {''approved'', ''updated_at''} \<longrightarrow>
                 map_of (rows (after (PUT ''1'' (Some approve_body) ''now'' None None sample_store)) ! i)
                   column =
                 map_of (rows sample_store ! i) column)"
    by (elim exE conjE)
  note fr0 = fr [rule_format, OF len]
  note slug = fr0 [THEN conjunct2, rule_format, OF col]
  show ?thesis
    by (intro conjI h1 c slug)
qed

subsection \<open>Approving twice\<close>

lemma filter_map_patch:
  assumes "\<And>r. P (g r) = P r"
  shows "filter P (map (\<lambda>r. if P r then g r else r) xs) = map g (filter P xs)"
  by (induction xs) (simp_all add: assms)

lemma PUT_existing:
  assumes "filter (id_matches ident) (rows s) = [job]" and "approved_true body"
  shows "PUT ident (Some body) now None None s =
     \<lparr>reply = Inr \<lparr>status = 200, content = ApprovedBody ''Job approved successfully''
         (AList.update ''updated_at'' (JStr now) (AList.update ''approved'' (JBool True) job))\<rparr>,
      calls = [SelectSingle ident,
               UpdateWhereId ident [(''approved'', JBool True), (''updated_at'', JStr now)]],
      after = s\<lparr>rows :=
        map (\<lambda>r. if id_matches ident r
                 then apply_patch [(''approved'', JBool True), (''updated_at'', JStr now)] r
                 else r) (rows s)\<rparr>\<rparr>"
proof -
  have sel: "select_single ident None s = (Some job, None)"
    using assms(1) by (simp add: select_single_found)
  have "job \<in> set (filter (id_matches ident) (rows s))"
    by (simp add: assms(1))
  then have "id_matches ident job"
    by simp
  then obtain k where k: "decode_id ident = Some k"
    using id_matches_decodes by blast
  show ?thesis
    unfolding PUT_found [OF approved_true_Success [OF assms(2)] sel]
    by (simp add: update_where_id_def k)
qed

lemma filter_after_patch:
  "filter (id_matches ident)
     (map (\<lambda>r. if id_matches ident r
              then apply_patch [(''approved'', JBool True), (''updated_at'', JStr now)] r
              else r) xs) =
   map (apply_patch [(''approved'', JBool True), (''updated_at'', JStr now)])
     (filter (id_matches ident) xs)"
  by (rule filter_map_patch) (rule id_matches_approve_patch)

text \<open>
  C8: approve is idempotent in effect. For every existing job (the one row of its id) and
  a store that carries the calls out, a first approve answers 200 and leaves the job
  approved; a second approve of the same identifier again answers 200 and the job is
  still approved.
\<close>

theorem PUT_twice:
  assumes "filter (id_matches ident) (rows s) = [job]" and "approved_true body"
  shows "(\<exists>r1. reply (PUT ident (Some body) now1 None None s) = Inr r1 \<and> status r1 = 200) \<and>
         (\<exists>job1. filter (id_matches ident)
                    (rows (after (PUT ident (Some body) now1 None None s))) = [job1] \<and>
                  map_of job1 ''approved'' = Some (JBool True)) \<and>
         (\<exists>r2. reply (PUT ident (Some body) now2 None None
                       (after (PUT ident (Some body) now1 None None s))) = Inr r2 \<and>
                status r2 = 200) \<and>
         (\<exists>job2. filter (id_matches ident)
                    (rows (after (PUT ident (Some body) now2 None None
                       (after (PUT ident (Some body) now1 None None s))))) = [job2] \<and>
                  map_of job2 ''approved'' = Some (JBool True))"
proof -
  let ?p1 = "apply_patch [(''approved'', JBool True), (''updated_at'', JStr now1)]"
  let ?p2 = "apply_patch [(''approved'', JBool True), (''updated_at'', JStr now2)]"
  let ?s1 = "after (PUT ident (Some body) now1 None None s)"
  let ?s2 = "after (PUT ident (Some body) now2 None None ?s1)"
  note first = PUT_existing [OF assms, of now1]
  have rows1: "filter (id_matches ident) (rows ?s1) = [?p1 job]"
    by (simp add: first filter_after_patch assms(1))
  note second = PUT_existing [OF rows1 assms(2), of now2]
  have rows2: "filter (id_matches ident) (rows ?s2) = [?p2 (?p1 job)]"
    by (simp add: second filter_after_patch rows1)
  have a1: "map_of (?p1 job) ''approved'' = Some (JBool True)"
    and a2: "map_of (?p2 (?p1 job)) ''approved'' = Some (JBool True)"
    by (simp_all add: map_of_approve_patch)
  have r1: "\<exists>r1. reply (PUT ident (Some body) now1 None None s) = Inr r1 \<and> status r1 = 200"
    by (simp add: first)
  have r2: "\<exists>r2. reply (PUT ident (Some body) now2 None None ?s1) = Inr r2 \<and> status r2 = 200"
    by (simp add: second)
  from r1 r2 rows1 rows2 a1 a2 show ?thesis
    by (intro conjI exI [of _ "?p1 job"] exI [of _ "?p2 (?p1 job)"]) assumption+
qed

theorem PUT_twice_witness:
  "filter (id_matches ''1'') (rows sample_store) = [(''id'', JNum 1) # sample_job] \<and>
   approved_true approve_body \<and>
   ((\<exists>r1. reply (PUT ''1'' (Some approve_body) ''now'' None None sample_store) = Inr r1 \<and>
           status r1 = 200) \<and>
    (\<exists>job1. filter (id_matches ''1'')
               (rows (after (PUT ''1'' (Some approve_body) ''now'' None None sample_store))) =
               [job1] \<and>
             map_of job1 ''approved'' = Some (JBool True)) \<and>
    (\<exists>r2. reply (PUT ''1'' (Some approve_body) ''later'' None None
                  (after (PUT ''1'' (Some approve_body) ''now'' None None sample_store))) = Inr r2 \<and>
           status r2 = 200) \<and>
    (\<exists>job2. filter (id_matches ''1'')
               (rows (after (PUT ''1'' (Some approve_body) ''later'' None None
                  (after (PUT ''1'' (Some approve_body) ''now'' None None sample_store))))) =
               [job2] \<and>
             map_of job2 ''approved'' = Some (JBool True)))"
  (is "?H1 \<and> ?H2 \<and> ?C")
proof -
  have h1: ?H1
    by (simp add: sample_store_def id_matches_def decode_id_1)
  have h2: ?H2
    by (simp add: approved_true_def approve_body_def)
  have c: ?C
    by (rule PUT_twice [OF h1 h2])
  show ?thesis
    by (rule conjI [OF h1 conjI [OF h2 c]])
qed

section \<open>Delete\<close>

lemma DELETE_status:
  "reply (DELETE ident f s) =
     (case fst (delete_where_id ident f s) of
        Some e \<Rightarrow> Inr \<lparr>status = 404, content = ErrorBody ''Job not found''\<rparr>
      | None \<Rightarrow> Inr \<lparr>status = 200, content = MessageBody ''Job deleted successfully''\<rparr>)"
  by (simp add: DELETE_def json_response_def split: prod.splits option.splits)

text \<open>
  C5: a delete request whose identifier matches no row should be answered 404. The handler
  answers 404 only when the store reports an error, and a delete that matches no row is
  not one: on the sample table, whose only row has id 1, the delete of id 999 is answered
  200 and the table is unchanged.
\<close>

theorem DELETE_missing_row_responds_200:
  "filter (id_matches ''999'') (rows sample_store) = [] \<and>
   reply (DELETE ''999'' None sample_store) =
     Inr \<lparr>status = 200, content = MessageBody ''Job deleted successfully''\<rparr> \<and>
   after (DELETE ''999'' None sample_store) = sample_store"
  by (simp add: DELETE_def delete_where_id_def decode_id_999 json_response_def
      sample_store_def id_matches_def sample_job_def)

section \<open>The \<open>approved\<close> field over all operations\<close>

lemma after_GET: "after (GET f s) = s"
  by (simp add: GET_def split: prod.splits option.splits)

lemma after_GET_by_id: "after (GET_by_id ident f s) = s"
  by (simp add: GET_by_id_def split: prod.splits option.splits)

lemma after_DELETE: "after (DELETE ident f s) = snd (delete_where_id ident f s)"
  by (simp add: DELETE_def split: prod.splits option.splits)

lemma after_POST:
  "after (POST email url req f s) = s \<or>
   (\<exists>body data. req = Some body \<and> safeParse (jobSchema email url) body = Success data \<and>
      after (POST email url req f s) = snd (insert_one data f s))"
  by (cases req) (auto simp: POST_def split: safe_parse.splits prod.splits option.splits)

lemma after_PUT:
  "after (PUT ident req now f1 f2 s) = s \<or>
   after (PUT ident req now f1 f2 s) =
     snd (update_where_id ident [(''approved'', JBool True), (''updated_at'', JStr now)] f2 s)"
proof (cases "\<exists>body d existingJob. req = Some body \<and> safeParse approveJobSchema body = Success d \<and>
     select_single ident f1 s = (Some existingJob, None)")
  case True
  then obtain body d existingJob where "req = Some body"
    and ok: "safeParse approveJobSchema body = Success d"
    and sel: "select_single ident f1 s = (Some existingJob, None)"
    by blast
  then show ?thesis
    by (simp add: PUT_found [OF ok sel] split: prod.splits)
next
  case False
  then have "after (PUT ident req now f1 f2 s) = s"
    by (cases req; cases "select_single ident f1 s")
       (auto simp: PUT_def split: safe_parse.splits option.splits)
  then show ?thesis ..
qed

lemma POST_approved_sample:
  "after (serve sample_email sample_url
     (CreateJob (Some (JObj (AList.update ''approved'' (JBool True) sample_job)))) None None
     empty_store) =
   \<lparr>rows = [(''id'', JNum 1) # AList.update ''approved'' (JBool True) sample_job], next_id = 2\<rparr>"
  by (simp add: serve_def POST_def eval_schema insert_one_def empty_store_def)

lemma rows_insert_one_new:
  "rows (snd (insert_one data f s)) = rows s \<or>
   (\<exists>r'. rows (snd (insert_one data f s)) = rows s @ [r'] \<and>
      map_of r' ''id'' \<notin> set (map (\<lambda>r. map_of r ''id'') (rows s)) \<and>
      map_of r' ''approved'' = map_of data ''approved'')"
  by (auto simp: insert_one_def Let_def split: option.splits if_splits)

lemma rows_update_where_id_map:
  "rows (snd (update_where_id ident patch f s)) = rows s \<or>
   rows (snd (update_where_id ident patch f s)) =
     map (\<lambda>r. if id_matches ident r then apply_patch patch r else r) (rows s)"
  by (auto simp: update_where_id_def split: option.splits)

lemma rows_delete_where_id_filter:
  "rows (snd (delete_where_id ident f s)) = rows s \<or>
   rows (snd (delete_where_id ident f s)) = filter (\<lambda>r. \<not> id_matches ident r) (rows s)"
  by (auto simp: delete_where_id_def split: option.splits)

lemma boolean_Valid:
  "fst (zod_parse ZodBoolean p x) = Valid \<Longrightarrow> \<exists>b. x = Some (JBool b)"
  by (cases x; cases "the x") auto

lemma POST_approved_on_sample_store:
  "rows (after (serve sample_email sample_url
     (CreateJob (Some (JObj (AList.update ''approved'' (JBool True) sample_job)))) None None sample_store)) =
   rows sample_store @ [(''id'', JNum 2) # AList.update ''approved'' (JBool True) sample_job]"
  by (simp add: serve_def POST_def eval_schema insert_one_def sample_store_def)

text \<open>
  C1 (as amended): over the five operations, the table after a request is the table
  before it, or one of three changes of it. After an Approve, the rows of the approved id
  are patched, their \<open>approved\<close> now true, and every other row is as before. After a
  Create, every row that was there is kept as it was and one row is added, of an id no
  row had, whose \<open>approved\<close> is the boolean of the client's payload, true or false.
  After a Delete, rows of the deleted id are gone and the others are as before. So
  \<open>approved\<close> of an existing job posting becomes true only via Approve and no operation
  sets it back, and a job posting can also be created already approved.
\<close>

theorem approved_changes_only_by_approve_or_create:
  "rows (after (serve email url req f1 f2 s)) = rows s \<or>
   (\<exists>ident body now.
      req = ApproveJob ident body now \<and>
      rows (after (serve email url req f1 f2 s)) =
        map (\<lambda>r. if id_matches ident r
                 then apply_patch [(''approved'', JBool True), (''updated_at'', JStr now)] r
                 else r) (rows s) \<and>
      (\<forall>r. map_of (apply_patch [(''approved'', JBool True), (''updated_at'', JStr now)] r)
              ''approved'' = Some (JBool True))) \<or>
   (\<exists>props r' b.
      req = CreateJob (Some (JObj props)) \<and>
      rows (after (serve email url req f1 f2 s)) = rows s @ [r'] \<and>
      map_of r' ''id'' \<notin> set (map (\<lambda>r. map_of r ''id'') (rows s)) \<and>
      map_of props ''approved'' = Some (JBool b) \<and>
      map_of r' ''approved'' = Some (JBool b)) \<or>
   (\<exists>ident.
      req = DeleteJob ident \<and>
      rows (after (serve email url req f1 f2 s)) =
        filter (\<lambda>r. \<not> id_matches ident r) (rows s))"
proof (cases req)
  case ListJobs
  then show ?thesis by (simp add: serve_def after_GET)
next
  case (CreateJob body)
  have srv: "after (serve email url req f1 f2 s) = after (POST email url body f1 s)"
    by (simp add: serve_def CreateJob)
  from after_POST [of email url body f1 s] show ?thesis
  proof
    assume "after (POST email url body f1 s) = s"
    then show ?thesis by (simp add: srv)
  next
    assume "\<exists>b data. body = Some b \<and> safeParse (jobSchema email url) b = Success data \<and>
      after (POST email url body f1 s) = snd (insert_one data f1 s)"
    then obtain b data where b: "body = Some b"
      and ok: "safeParse (jobSchema email url) b = Success data"
      and aft: "after (POST email url body f1 s) = snd (insert_one data f1 s)"
      by blast
    from ok obtain props where p: "b = JObj props"
      and d: "data = final_object (shape (jobSchema email url)) props"
      and v: "\<forall>(k, t) \<in> set (shape (jobSchema email url)).
                fst (zod_parse t [k] (map_of props k)) = Valid"
      by (rule jobSchema_Success)
    have "(''approved'', ZodBoolean) \<in> set (shape (jobSchema email url))"
      by (simp add: jobSchema_def)
    with v have "fst (zod_parse ZodBoolean [''approved''] (map_of props ''approved'')) = Valid"
      by blast
    then obtain bv where bv: "map_of props ''approved'' = Some (JBool bv)"
      using boolean_Valid by blast
    have da: "map_of data ''approved'' = map_of props ''approved''"
      unfolding d map_of_final_object jobSchema_keys by simp
    from rows_insert_one_new [of data f1 s] show ?thesis
    proof
      assume "rows (snd (insert_one data f1 s)) = rows s"
      then show ?thesis by (simp add: srv aft)
    next
      assume "\<exists>r'. rows (snd (insert_one data f1 s)) = rows s @ [r'] \<and>
        map_of r' ''id'' \<notin> set (map (\<lambda>r. map_of r ''id'') (rows s)) \<and>
        map_of r' ''approved'' = map_of data ''approved''"
      then obtain r' where r1: "rows (snd (insert_one data f1 s)) = rows s @ [r']"
        and r2: "map_of r' ''id'' \<notin> set (map (\<lambda>r. map_of r ''id'') (rows s))"
        and r3: "map_of r' ''approved'' = map_of data ''approved''"
        by blast
      have "req = CreateJob (Some (JObj props))"
        by (simp add: CreateJob b p)
      moreover have "rows (after (serve email url req f1 f2 s)) = rows s @ [r']"
        by (simp add: srv aft r1)
      moreover have "map_of r' ''approved'' = Some (JBool bv)"
        by (simp add: r3 da bv)
      ultimately show ?thesis
        using r2 bv by blast
    qed
  qed
next
  case (GetJob ident)
  then show ?thesis by (simp add: serve_def after_GET_by_id)
next
  case (ApproveJob ident body now)
  let ?patch = "[(''approved'', JBool True), (''updated_at'', JStr now)]"
  have srv: "after (serve email url req f1 f2 s) = after (PUT ident body now f1 f2 s)"
    by (simp add: serve_def ApproveJob)
  have tr: "\<forall>r. map_of (apply_patch ?patch r) ''approved'' = Some (JBool True)"
    by (simp add: map_of_approve_patch)
  from after_PUT [of ident body now f1 f2 s] show ?thesis
  proof
    assume "after (PUT ident body now f1 f2 s) = s"
    then show ?thesis by (simp add: srv)
  next
    assume aft: "after (PUT ident body now f1 f2 s) = snd (update_where_id ident ?patch f2 s)"
    from rows_update_where_id_map [of ident ?patch f2 s] show ?thesis
    proof
      assume "rows (snd (update_where_id ident ?patch f2 s)) = rows s"
      then show ?thesis by (simp add: srv aft)
    next
      assume "rows (snd (update_where_id ident ?patch f2 s)) =
        map (\<lambda>r. if id_matches ident r then apply_patch ?patch r else r) (rows s)"
      then have "rows (after (serve email url req f1 f2 s)) =
        map (\<lambda>r. if id_matches ident r then apply_patch ?patch r else r) (rows s)"
        by (simp add: srv aft)
      with ApproveJob tr show ?thesis by blast
    qed
  qed
next
  case (DeleteJob ident)
  have srv: "after (serve email url req f1 f2 s) = snd (delete_where_id ident f1 s)"
    by (simp add: serve_def DeleteJob after_DELETE)
  from rows_delete_where_id_filter [of ident f1 s] show ?thesis
  proof
    assume "rows (snd (delete_where_id ident f1 s)) = rows s"
    then show ?thesis by (simp add: srv)
  next
    assume "rows (snd (delete_where_id ident f1 s)) = filter (\<lambda>r. \<not> id_matches ident r) (rows s)"
    then have "rows (after (serve email url req f1 f2 s)) =
      filter (\<lambda>r. \<not> id_matches ident r) (rows s)"
      by (simp add: srv)
    with DeleteJob show ?thesis by blast
  qed
qed

theorem approved_changes_only_by_approve_or_create_witness:
  "rows (after (serve sample_email sample_url
     (CreateJob (Some (JObj (AList.update ''approved'' (JBool True) sample_job)))) None None sample_store)) =
   rows sample_store @ [(''id'', JNum 2) # AList.update ''approved'' (JBool True) sample_job] \<and>
   rows sample_store = [(''id'', JNum 1) # sample_job] \<and>
   (rows (after (serve sample_email sample_url (CreateJob (Some (JObj (AList.update ''approved'' (JBool True) sample_job)))) None None sample_store)) = rows sample_store \<or>
   (\<exists>ident body now.
      (CreateJob (Some (JObj (AList.update ''approved'' (JBool True) sample_job)))) = ApproveJob ident body now \<and>
      rows (after (serve sample_email sample_url (CreateJob (Some (JObj (AList.update ''approved'' (JBool True) sample_job)))) None None sample_store)) =
        map (\<lambda>r. if id_matches ident r
                 then apply_patch [(''approved'', JBool True), (''updated_at'', JStr now)] r
                 else r) (rows sample_store) \<and>
      (\<forall>r. map_of (apply_patch [(''approved'', JBool True), (''updated_at'', JStr now)] r)
              ''approved'' = Some (JBool True))) \<or>
   (\<exists>props r' b.
      (CreateJob (Some (JObj (AList.update ''approved'' (JBool True) sample_job)))) = CreateJob (Some (JObj props)) \<and>
      rows (after (serve sample_email sample_url (CreateJob (Some (JObj (AList.update ''approved'' (JBool True) sample_job)))) None None sample_store)) = rows sample_store @ [r'] \<and>
      map_of r' ''id'' \<notin> set (map (\<lambda>r. map_of r ''id'') (rows sample_store)) \<and>
      map_of props ''approved'' = Some (JBool b) \<and>
      map_of r' ''approved'' = Some (JBool b)) \<or>
   (\<exists>ident.
      (CreateJob (Some (JObj (AList.update ''approved'' (JBool True) sample_job)))) = DeleteJob ident \<and>
      rows (after (serve sample_email sample_url (CreateJob (Some (JObj (AList.update ''approved'' (JBool True) sample_job)))) None None sample_store)) =
        filter (\<lambda>r. \<not> id_matches ident r) (rows sample_store)))"
  (is "?H1 \<and> ?H2 \<and> ?C")
proof -
  have h1: ?H1
    by (rule POST_approved_on_sample_store)
  have h2: ?H2
    by (simp add: sample_store_def)
  have c: ?C
    by (rule approved_changes_only_by_approve_or_create)
  show ?thesis
    by (rule conjI [OF h1 conjI [OF h2 c]])
qed

text \<open>The claim as stated fails: Create stores a row that is approved, and no Approve
  was issued.\<close>

theorem create_approved_counterexample:
  "rows (after (serve sample_email sample_url
     (CreateJob (Some (JObj (AList.update ''approved'' (JBool True) sample_job)))) None None
     empty_store)) =
     [(''id'', JNum 1) # AList.update ''approved'' (JBool True) sample_job] \<and>
   map_of ((''id'', JNum 1) # AList.update ''approved'' (JBool True) sample_job) ''approved'' =
     Some (JBool True) \<and>
   calls (serve sample_email sample_url
     (CreateJob (Some (JObj (AList.update ''approved'' (JBool True) sample_job)))) None None
     empty_store) = [InsertOne (AList.update ''approved'' (JBool True) sample_job)]"
  by (simp add: serve_def POST_def eval_schema insert_one_def empty_store_def)

end
